theory Spec2Isabelle
  imports Main "HOL-Library.Word"
begin

section \<open>The email service of examples/valar-server/email_server.go\<close>

text \<open>
  The six RPC handlers of \<^verbatim>\<open>EmailServer\<close> are embedded as functions from a request and
  the state of the outside world to a result and the new state. Go strings are byte
  sequences, as \<^typ>\<open>string\<close> is. The logger is left out: its calls return nothing and no
  branch depends on them.
\<close>

subsection \<open>gRPC status errors\<close>

text \<open>The codes of \<^verbatim>\<open>google.golang.org/grpc/codes\<close>; the handlers use one of them.\<close>

datatype codes =
    OK | Canceled | Unknown | InvalidArgument | DeadlineExceeded | NotFound
  | AlreadyExists | PermissionDenied | ResourceExhausted | FailedPrecondition
  | Aborted | OutOfRange | Unimplemented | Internal | Unavailable | DataLoss
  | Unauthenticated

text \<open>\<^verbatim>\<open>status.Error(c, msg)\<close>: the non-nil error a handler returns beside a nil response.\<close>

datatype grpc_error = status_Error codes string

subsection \<open>Messages\<close>

text \<open>
  The request and response messages are generated from \<^verbatim>\<open>proto/email/v1/email.proto\<close>;
  the records hold the fields the handlers read or write. Field names carry a prefix per
  message, since several messages share \<^verbatim>\<open>To\<close> and \<^verbatim>\<open>UserName\<close>. The two
  \<^verbatim>\<open>float64\<close> fields have the type parameter \<open>'f\<close>.
\<close>

record SendEmailRequest =
  em_To :: string
  em_Subject :: string
  em_HtmlBody :: string
  em_TextBody :: string

record SendVerificationEmailRequest =
  ver_To :: string
  ver_VerificationToken :: string
  ver_VerificationUrl :: string
  ver_UserName :: string

record SendPasswordResetEmailRequest =
  rst_To :: string
  rst_ResetToken :: string
  rst_ResetUrl :: string
  rst_UserName :: string
  rst_ExpiryMinutes :: "32 word"

record SendWelcomeEmailRequest =
  wel_To :: string
  wel_UserName :: string
  wel_AccountType :: string

record 'f SendTransactionNotificationRequest =
  txn_To :: string
  txn_TransactionId :: string
  txn_TransactionType :: string
  txn_Amount :: 'f
  txn_Currency :: string
  txn_RecipientName :: string
  txn_Timestamp :: string
  txn_Balance :: 'f

record SendTemplateEmailRequest =
  tpl_To :: string
  tpl_TemplateId :: string
  tpl_Variables :: "string \<rightharpoonup> string"

record SendEmailResponse =
  MessageId :: string
  Success :: bool
  Error :: string
  Status :: string
  Timestamp :: "64 word"

subsection \<open>The provider client and the world\<close>

text \<open>
  \<^verbatim>\<open>ResendClient\<close> is an interface with two methods, each returning
  \<^verbatim>\<open>(messageID string, err error)\<close>. An implementation may keep state of its own
  (\<open>'s\<close>). The pair returned is modelled as the identifier and \<open>None\<close> for a nil error,
  \<open>Some txt\<close> for an error whose \<^verbatim>\<open>Error()\<close> is \<open>txt\<close>. A method call is reified
  as a \<open>provider_call\<close>, so that the world can keep the list of calls made.
\<close>

datatype provider_call =
    Call_SendEmail string string string string
  | Call_SendWithTemplate string string "string \<rightharpoonup> string"

record 's ResendClient =
  client_SendEmail ::
    "string \<Rightarrow> string \<Rightarrow> string \<Rightarrow> string \<Rightarrow> 's \<Rightarrow> (string \<times> string option) \<times> 's"
  client_SendWithTemplate ::
    "string \<Rightarrow> string \<Rightarrow> (string \<rightharpoonup> string) \<Rightarrow> 's \<Rightarrow> (string \<times> string option) \<times> 's"

record 's EmailServer =
  resendClient :: "'s ResendClient"

record 's world =
  provider_state :: 's
  provider_calls :: "provider_call list"

text \<open>
  What the handlers read from the Go runtime and standard library: the value of
  \<^verbatim>\<open>time.Now().Unix()\<close> when the response is built, and \<^verbatim>\<open>fmt.Sprintf("%.2f", x)\<close>
  on a \<^verbatim>\<open>float64\<close>, taken as a parameter.
\<close>

record 'f runtime =
  time_Now_Unix :: "64 word"
  Sprintf_2f :: "'f \<Rightarrow> string"

fun invoke :: "'s ResendClient \<Rightarrow> provider_call \<Rightarrow> 's \<Rightarrow> (string \<times> string option) \<times> 's" where
  "invoke c (Call_SendEmail rcpt subject html txt) st = client_SendEmail c rcpt subject html txt st"
| "invoke c (Call_SendWithTemplate rcpt templateID variables) st =
     client_SendWithTemplate c rcpt templateID variables st"

definition call_provider ::
  "'s ResendClient \<Rightarrow> provider_call \<Rightarrow> 's world \<Rightarrow> (string \<times> string option) \<times> 's world" where
  "call_provider c call w =
     (case invoke c call (provider_state w) of
        (r, st') \<Rightarrow> (r, \<lparr>provider_state = st', provider_calls = provider_calls w @ [call]\<rparr>))"

subsection \<open>Formatting an integer\<close>

text \<open>\<^verbatim>\<open>fmt.Sprintf("%d", n)\<close> on an \<^verbatim>\<open>int32\<close>: decimal digits, with a minus sign below zero.\<close>

fun decimal :: "nat \<Rightarrow> string" where
  "decimal n =
     (if n < 10 then [''0123456789'' ! n]
      else decimal (n div 10) @ [''0123456789'' ! (n mod 10)])"

declare decimal.simps [simp del]

definition Sprintf_d :: "32 word \<Rightarrow> string" where
  "Sprintf_d n = (if sint n < 0 then CHR ''-'' # decimal (nat (- sint n)) else decimal (nat (sint n)))"

subsection \<open>The handlers\<close>

type_synonym 's rpc_result = "(grpc_error + SendEmailResponse) \<times> 's world"

definition SendEmail ::
  "'s EmailServer \<Rightarrow> 'f runtime \<Rightarrow> SendEmailRequest \<Rightarrow> 's world \<Rightarrow> 's rpc_result" where
  "SendEmail s rt req w =
     (if em_To req = [] then
        (Inl (status_Error InvalidArgument ''recipient email is required''), w)
      else if em_Subject req = [] then
        (Inl (status_Error InvalidArgument ''subject is required''), w)
      else if em_HtmlBody req = [] \<and> em_TextBody req = [] then
        (Inl (status_Error InvalidArgument ''email body is required''), w)
      else
        (case call_provider (resendClient s)
                (Call_SendEmail (em_To req) (em_Subject req) (em_HtmlBody req) (em_TextBody req)) w of
           ((messageID, Some err), w') \<Rightarrow>
             (Inr \<lparr>MessageId = [], Success = False, Error = err, Status = ''failed'',
                   Timestamp = time_Now_Unix rt\<rparr>, w')
         | ((messageID, None), w') \<Rightarrow>
             (Inr \<lparr>MessageId = messageID, Success = True, Error = [], Status = ''sent'',
                   Timestamp = time_Now_Unix rt\<rparr>, w')))"

definition SendVerificationEmail ::
  "'s EmailServer \<Rightarrow> 'f runtime \<Rightarrow> SendVerificationEmailRequest \<Rightarrow> 's world \<Rightarrow> 's rpc_result" where
  "SendVerificationEmail s rt req w =
     (if ver_To req = [] then
        (Inl (status_Error InvalidArgument ''recipient email is required''), w)
      else if ver_VerificationToken req = [] then
        (Inl (status_Error InvalidArgument ''verification token is required''), w)
      else
        (let verificationURL =
               (if ver_VerificationUrl req = []
                then ''https://app.cloud9.money/verify?token='' @ ver_VerificationToken req
                else ver_VerificationUrl req);
             variables =
               [''user_name'' \<mapsto> ver_UserName req,
                ''verification_url'' \<mapsto> verificationURL,
                ''verification_token'' \<mapsto> ver_VerificationToken req,
                ''app_name'' \<mapsto> ''Cloud9'',
                ''support_email'' \<mapsto> ''support@cloud9.money'']
         in case call_provider (resendClient s)
                   (Call_SendWithTemplate (ver_To req) ''verification-email'' variables) w of
              ((messageID, Some err), w') \<Rightarrow>
                (Inr \<lparr>MessageId = [], Success = False, Error = err, Status = ''failed'',
                      Timestamp = time_Now_Unix rt\<rparr>, w')
            | ((messageID, None), w') \<Rightarrow>
                (Inr \<lparr>MessageId = messageID, Success = True, Error = [], Status = ''sent'',
                      Timestamp = time_Now_Unix rt\<rparr>, w')))"

definition SendPasswordResetEmail ::
  "'s EmailServer \<Rightarrow> 'f runtime \<Rightarrow> SendPasswordResetEmailRequest \<Rightarrow> 's world \<Rightarrow> 's rpc_result" where
  "SendPasswordResetEmail s rt req w =
     (if rst_To req = [] then
        (Inl (status_Error InvalidArgument ''recipient email is required''), w)
      else if rst_ResetToken req = [] then
        (Inl (status_Error InvalidArgument ''reset token is required''), w)
      else
        (let resetURL =
               (if rst_ResetUrl req = []
                then ''https://app.cloud9.money/reset-password?token='' @ rst_ResetToken req
                else rst_ResetUrl req);
             variables =
               [''user_name'' \<mapsto> rst_UserName req,
                ''reset_url'' \<mapsto> resetURL,
                ''reset_token'' \<mapsto> rst_ResetToken req,
                ''expiry_minutes'' \<mapsto> Sprintf_d (rst_ExpiryMinutes req),
                ''app_name'' \<mapsto> ''Cloud9'',
                ''support_email'' \<mapsto> ''support@cloud9.money'']
         in case call_provider (resendClient s)
                   (Call_SendWithTemplate (rst_To req) ''password-reset'' variables) w of
              ((messageID, Some err), w') \<Rightarrow>
                (Inr \<lparr>MessageId = [], Success = False, Error = err, Status = ''failed'',
                      Timestamp = time_Now_Unix rt\<rparr>, w')
            | ((messageID, None), w') \<Rightarrow>
                (Inr \<lparr>MessageId = messageID, Success = True, Error = [], Status = ''sent'',
                      Timestamp = time_Now_Unix rt\<rparr>, w')))"

definition SendWelcomeEmail ::
  "'s EmailServer \<Rightarrow> 'f runtime \<Rightarrow> SendWelcomeEmailRequest \<Rightarrow> 's world \<Rightarrow> 's rpc_result" where
  "SendWelcomeEmail s rt req w =
     (if wel_To req = [] then
        (Inl (status_Error InvalidArgument ''recipient email is required''), w)
      else
        (let variables =
               [''user_name'' \<mapsto> wel_UserName req,
                ''account_type'' \<mapsto> wel_AccountType req,
                ''app_name'' \<mapsto> ''Cloud9'',
                ''dashboard_url'' \<mapsto> ''https://app.cloud9.money/dashboard'']
         in case call_provider (resendClient s)
                   (Call_SendWithTemplate (wel_To req) ''welcome-email'' variables) w of
              ((messageID, Some err), w') \<Rightarrow>
                (Inr \<lparr>MessageId = [], Success = False, Error = err, Status = ''failed'',
                      Timestamp = time_Now_Unix rt\<rparr>, w')
            | ((messageID, None), w') \<Rightarrow>
                (Inr \<lparr>MessageId = messageID, Success = True, Error = [], Status = ''sent'',
                      Timestamp = time_Now_Unix rt\<rparr>, w')))"

definition SendTransactionNotification ::
  "'s EmailServer \<Rightarrow> 'f runtime \<Rightarrow> 'f SendTransactionNotificationRequest \<Rightarrow> 's world
     \<Rightarrow> 's rpc_result" where
  "SendTransactionNotification s rt req w =
     (if txn_To req = [] then
        (Inl (status_Error InvalidArgument ''recipient email is required''), w)
      else
        (let variables =
               [''transaction_id'' \<mapsto> txn_TransactionId req,
                ''transaction_type'' \<mapsto> txn_TransactionType req,
                ''amount'' \<mapsto> Sprintf_2f rt (txn_Amount req),
                ''currency'' \<mapsto> txn_Currency req,
                ''recipient_name'' \<mapsto> txn_RecipientName req,
                ''timestamp'' \<mapsto> txn_Timestamp req,
                ''balance'' \<mapsto> Sprintf_2f rt (txn_Balance req),
                ''app_name'' \<mapsto> ''Cloud9'']
         in case call_provider (resendClient s)
                   (Call_SendWithTemplate (txn_To req) ''transaction-notification'' variables) w of
              ((messageID, Some err), w') \<Rightarrow>
                (Inr \<lparr>MessageId = [], Success = False, Error = err, Status = ''failed'',
                      Timestamp = time_Now_Unix rt\<rparr>, w')
            | ((messageID, None), w') \<Rightarrow>
                (Inr \<lparr>MessageId = messageID, Success = True, Error = [], Status = ''sent'',
                      Timestamp = time_Now_Unix rt\<rparr>, w')))"

definition SendTemplateEmail ::
  "'s EmailServer \<Rightarrow> 'f runtime \<Rightarrow> SendTemplateEmailRequest \<Rightarrow> 's world \<Rightarrow> 's rpc_result" where
  "SendTemplateEmail s rt req w =
     (if tpl_To req = [] then
        (Inl (status_Error InvalidArgument ''recipient email is required''), w)
      else if tpl_TemplateId req = [] then
        (Inl (status_Error InvalidArgument ''template ID is required''), w)
      else
        (case call_provider (resendClient s)
                (Call_SendWithTemplate (tpl_To req) (tpl_TemplateId req) (tpl_Variables req)) w of
           ((messageID, Some err), w') \<Rightarrow>
             (Inr \<lparr>MessageId = [], Success = False, Error = err, Status = ''failed'',
                   Timestamp = time_Now_Unix rt\<rparr>, w')
         | ((messageID, None), w') \<Rightarrow>
             (Inr \<lparr>MessageId = messageID, Success = True, Error = [], Status = ''sent'',
                   Timestamp = time_Now_Unix rt\<rparr>, w')))"

subsection \<open>The service as a whole\<close>

text \<open>
  The generated service stub routes each method of \<^verbatim>\<open>EmailService\<close> to the handler of
  the same name; a request of the service is a request of one of the six methods.
\<close>

datatype 'f request =
    Req_SendEmail SendEmailRequest
  | Req_SendVerificationEmail SendVerificationEmailRequest
  | Req_SendPasswordResetEmail SendPasswordResetEmailRequest
  | Req_SendWelcomeEmail SendWelcomeEmailRequest
  | Req_SendTransactionNotification "'f SendTransactionNotificationRequest"
  | Req_SendTemplateEmail SendTemplateEmailRequest

fun EmailService ::
  "'s EmailServer \<Rightarrow> 'f runtime \<Rightarrow> 'f request \<Rightarrow> 's world \<Rightarrow> 's rpc_result" where
  "EmailService s rt (Req_SendEmail req) w = SendEmail s rt req w"
| "EmailService s rt (Req_SendVerificationEmail req) w = SendVerificationEmail s rt req w"
| "EmailService s rt (Req_SendPasswordResetEmail req) w = SendPasswordResetEmail s rt req w"
| "EmailService s rt (Req_SendWelcomeEmail req) w = SendWelcomeEmail s rt req w"
| "EmailService s rt (Req_SendTransactionNotification req) w = SendTransactionNotification s rt req w"
| "EmailService s rt (Req_SendTemplateEmail req) w = SendTemplateEmail s rt req w"

text \<open>The recipient field of a request.\<close>

fun recipient :: "'f request \<Rightarrow> string" where
  "recipient (Req_SendEmail req) = em_To req"
| "recipient (Req_SendVerificationEmail req) = ver_To req"
| "recipient (Req_SendPasswordResetEmail req) = rst_To req"
| "recipient (Req_SendWelcomeEmail req) = wel_To req"
| "recipient (Req_SendTransactionNotification req) = txn_To req"
| "recipient (Req_SendTemplateEmail req) = tpl_To req"

text \<open>
  The checks each handler makes before it calls the provider, as one predicate: a request
  passes validation when none of its handler's checks fires.
\<close>

fun passes_validation :: "'f request \<Rightarrow> bool" where
  "passes_validation (Req_SendEmail req) =
     (\<not> em_To req = [] \<and> \<not> em_Subject req = [] \<and> \<not> (em_HtmlBody req = [] \<and> em_TextBody req = []))"
| "passes_validation (Req_SendVerificationEmail req) =
     (\<not> ver_To req = [] \<and> \<not> ver_VerificationToken req = [])"
| "passes_validation (Req_SendPasswordResetEmail req) =
     (\<not> rst_To req = [] \<and> \<not> rst_ResetToken req = [])"
| "passes_validation (Req_SendWelcomeEmail req) = (\<not> wel_To req = [])"
| "passes_validation (Req_SendTransactionNotification req) = (\<not> txn_To req = [])"
| "passes_validation (Req_SendTemplateEmail req) =
     (\<not> tpl_To req = [] \<and> \<not> tpl_TemplateId req = [])"

text \<open>Reading a logged call.\<close>

fun call_template :: "provider_call \<Rightarrow> string option" where
  "call_template (Call_SendEmail rcpt subject html txt) = None"
| "call_template (Call_SendWithTemplate rcpt templateID variables) = Some templateID"

fun call_variables :: "provider_call \<Rightarrow> (string \<rightharpoonup> string)" where
  "call_variables (Call_SendEmail rcpt subject html txt) = Map.empty"
| "call_variables (Call_SendWithTemplate rcpt templateID variables) = variables"

subsection \<open>Stub providers and example requests\<close>

text \<open>A stub that fails every call with the given text, and one that returns the given identifier.\<close>

definition failing_client :: "string \<Rightarrow> unit ResendClient" where
  "failing_client e =
     \<lparr>client_SendEmail = (\<lambda>rcpt subject html txt st. (([], Some e), st)),
      client_SendWithTemplate = (\<lambda>rcpt templateID variables st. (([], Some e), st))\<rparr>"

definition succeeding_client :: "string \<Rightarrow> unit ResendClient" where
  "succeeding_client m =
     \<lparr>client_SendEmail = (\<lambda>rcpt subject html txt st. ((m, None), st)),
      client_SendWithTemplate = (\<lambda>rcpt templateID variables st. ((m, None), st))\<rparr>"

definition server_of :: "'s ResendClient \<Rightarrow> 's EmailServer" where
  "server_of c = \<lparr>resendClient = c\<rparr>"

definition runtime0 :: "int runtime" where
  "runtime0 = \<lparr>time_Now_Unix = 1700000000, Sprintf_2f = (\<lambda>x. ''0.00'')\<rparr>"

definition world0 :: "unit world" where
  "world0 = \<lparr>provider_state = (), provider_calls = []\<rparr>"

definition template_request :: "int request" where
  "template_request =
     Req_SendTemplateEmail
       \<lparr>tpl_To = ''a@b.com'', tpl_TemplateId = ''welcome-email'', tpl_Variables = Map.empty\<rparr>"

definition verification_request :: SendVerificationEmailRequest where
  "verification_request =
     \<lparr>ver_To = ''user@example.com'', ver_VerificationToken = ''abc123'',
      ver_VerificationUrl = [], ver_UserName = ''John Doe''\<rparr>"

definition reset_request :: SendPasswordResetEmailRequest where
  "reset_request =
     \<lparr>rst_To = ''user@example.com'', rst_ResetToken = ''tok'', rst_ResetUrl = [],
      rst_UserName = ''John Doe'', rst_ExpiryMinutes = 30\<rparr>"

definition welcome_request :: SendWelcomeEmailRequest where
  "welcome_request =
     \<lparr>wel_To = ''user@example.com'', wel_UserName = ''John Doe'', wel_AccountType = ''personal''\<rparr>"

definition transaction_request :: "string \<Rightarrow> int SendTransactionNotificationRequest" where
  "transaction_request txnID =
     \<lparr>txn_To = ''user@example.com'', txn_TransactionId = txnID, txn_TransactionType = ''credit'',
      txn_Amount = 0, txn_Currency = ''KES'', txn_RecipientName = ''John Doe'',
      txn_Timestamp = ''2025-10-30T00:00:00Z'', txn_Balance = 0\<rparr>"

definition raw_request :: "string \<Rightarrow> string \<Rightarrow> string \<Rightarrow> string \<Rightarrow> SendEmailRequest" where
  "raw_request rcpt subject html txt =
     \<lparr>em_To = rcpt, em_Subject = subject, em_HtmlBody = html, em_TextBody = txt\<rparr>"

subsection \<open>The invariant of a result, in the words of the specification\<close>

text \<open>
  The specification's invariant of a result: success implies an empty error message and a
  non-empty message identifier, failure implies an empty identifier and a non-empty error
  message, and the two fields are never both populated nor both empty.
\<close>

definition spec_result_invariant :: "SendEmailResponse \<Rightarrow> bool" where
  "spec_result_invariant r \<longleftrightarrow>
     (Success r \<longrightarrow> Error r = [] \<and> MessageId r \<noteq> []) \<and>
     (\<not> Success r \<longrightarrow> MessageId r = [] \<and> Error r \<noteq> []) \<and>
     \<not> (MessageId r \<noteq> [] \<and> Error r \<noteq> []) \<and>
     \<not> (MessageId r = [] \<and> Error r = [])"

section \<open>Properties\<close>

subsection \<open>Shared lemmas\<close>

lemmas handler_defs =
  SendEmail_def SendVerificationEmail_def SendPasswordResetEmail_def SendWelcomeEmail_def
  SendTransactionNotification_def SendTemplateEmail_def

lemmas stub_defs =
  server_of_def failing_client_def succeeding_client_def runtime0_def world0_def
  call_provider_def

text \<open>The integer format at the ends of the range of \<^verbatim>\<open>int32\<close> and in between.\<close>

lemma Sprintf_d_examples:
  "Sprintf_d 30 = ''30''"
  "Sprintf_d 0 = ''0''"
  "Sprintf_d (- 5) = ''-5''"
  "Sprintf_d 2147483647 = ''2147483647''"
  "Sprintf_d (- 2147483648) = ''-2147483648''"
  by (simp_all add: Sprintf_d_def decimal.simps)

text \<open>A call is rejected exactly when the request does not pass validation.\<close>

lemma rejected_iff:
  "(\<exists>e. fst (EmailService s rt req w) = Inl e) \<longleftrightarrow> \<not> passes_validation req"
  by (cases req) (auto simp: handler_defs Let_def call_provider_def split: prod.splits option.splits)

lemma rejected_InvalidArgument:
  "fst (EmailService s rt req w) = Inl e \<Longrightarrow> \<exists>msg. e = status_Error InvalidArgument msg"
  by (cases req) (auto simp: handler_defs Let_def call_provider_def split: prod.splits option.splits if_splits)

lemma rejected_world:
  "fst (EmailService s rt req w) = Inl e \<Longrightarrow> snd (EmailService s rt req w) = w"
  by (cases req) (auto simp: handler_defs Let_def call_provider_def split: prod.splits option.splits if_splits)

text \<open>
  A request that passes validation leads to one provider call, and the result is the
  outcome of that call, shaped.
\<close>

lemma valid_run:
  assumes v: "passes_validation req"
  shows "\<exists>c. EmailService s rt req w =
     (case invoke (resendClient s) c (provider_state w) of
        ((m, err), st') \<Rightarrow>
          (Inr (case err of
                  Some e \<Rightarrow> \<lparr>MessageId = [], Success = False, Error = e, Status = ''failed'',
                             Timestamp = time_Now_Unix rt\<rparr>
                | None \<Rightarrow> \<lparr>MessageId = m, Success = True, Error = [], Status = ''sent'',
                           Timestamp = time_Now_Unix rt\<rparr>),
           \<lparr>provider_state = st', provider_calls = provider_calls w @ [c]\<rparr>))"
proof (cases req)
  case (Req_SendEmail r)
  with v show ?thesis
    by (intro exI [of _ "Call_SendEmail (em_To r) (em_Subject r) (em_HtmlBody r) (em_TextBody r)"])
       (simp add: SendEmail_def call_provider_def split: prod.splits option.splits)
next
  case (Req_SendVerificationEmail r)
  with v show ?thesis
    by (intro exI [of _ "Call_SendWithTemplate (ver_To r) ''verification-email''
          [''user_name'' \<mapsto> ver_UserName r,
           ''verification_url'' \<mapsto>
              (if ver_VerificationUrl r = []
               then ''https://app.cloud9.money/verify?token='' @ ver_VerificationToken r
               else ver_VerificationUrl r),
           ''verification_token'' \<mapsto> ver_VerificationToken r,
           ''app_name'' \<mapsto> ''Cloud9'',
           ''support_email'' \<mapsto> ''support@cloud9.money'']"])
       (simp add: SendVerificationEmail_def Let_def call_provider_def
             split: prod.splits option.splits)
next
  case (Req_SendPasswordResetEmail r)
  with v show ?thesis
    by (intro exI [of _ "Call_SendWithTemplate (rst_To r) ''password-reset''
          [''user_name'' \<mapsto> rst_UserName r,
           ''reset_url'' \<mapsto>
              (if rst_ResetUrl r = []
               then ''https://app.cloud9.money/reset-password?token='' @ rst_ResetToken r
               else rst_ResetUrl r),
           ''reset_token'' \<mapsto> rst_ResetToken r,
           ''expiry_minutes'' \<mapsto> Sprintf_d (rst_ExpiryMinutes r),
           ''app_name'' \<mapsto> ''Cloud9'',
           ''support_email'' \<mapsto> ''support@cloud9.money'']"])
       (simp add: SendPasswordResetEmail_def Let_def call_provider_def
             split: prod.splits option.splits)
next
  case (Req_SendWelcomeEmail r)
  with v show ?thesis
    by (intro exI [of _ "Call_SendWithTemplate (wel_To r) ''welcome-email''
          [''user_name'' \<mapsto> wel_UserName r,
           ''account_type'' \<mapsto> wel_AccountType r,
           ''app_name'' \<mapsto> ''Cloud9'',
           ''dashboard_url'' \<mapsto> ''https://app.cloud9.money/dashboard'']"])
       (simp add: SendWelcomeEmail_def Let_def call_provider_def
             split: prod.splits option.splits)
next
  case (Req_SendTransactionNotification r)
  with v show ?thesis
    by (intro exI [of _ "Call_SendWithTemplate (txn_To r) ''transaction-notification''
          [''transaction_id'' \<mapsto> txn_TransactionId r,
           ''transaction_type'' \<mapsto> txn_TransactionType r,
           ''amount'' \<mapsto> Sprintf_2f rt (txn_Amount r),
           ''currency'' \<mapsto> txn_Currency r,
           ''recipient_name'' \<mapsto> txn_RecipientName r,
           ''timestamp'' \<mapsto> txn_Timestamp r,
           ''balance'' \<mapsto> Sprintf_2f rt (txn_Balance r),
           ''app_name'' \<mapsto> ''Cloud9'']"])
       (simp add: SendTransactionNotification_def Let_def call_provider_def
             split: prod.splits option.splits)
next
  case (Req_SendTemplateEmail r)
  with v show ?thesis
    by (intro exI [of _ "Call_SendWithTemplate (tpl_To r) (tpl_TemplateId r) (tpl_Variables r)"])
       (simp add: SendTemplateEmail_def call_provider_def split: prod.splits option.splits)
qed

lemma valid_run_outcome:
  assumes v: "passes_validation req"
    and run: "EmailService s rt req w = (res, w')"
    and log: "provider_calls w' = provider_calls w @ [c]"
    and out: "fst (invoke (resendClient s) c (provider_state w)) = (m, err)"
  shows "res = Inr (case err of
                  Some e \<Rightarrow> \<lparr>MessageId = [], Success = False, Error = e, Status = ''failed'',
                             Timestamp = time_Now_Unix rt\<rparr>
                | None \<Rightarrow> \<lparr>MessageId = m, Success = True, Error = [], Status = ''sent'',
                           Timestamp = time_Now_Unix rt\<rparr>)"
proof -
  from valid_run [OF v, of s rt w] obtain c0 where
    eq: "EmailService s rt req w =
     (case invoke (resendClient s) c0 (provider_state w) of
        ((m, err), st') \<Rightarrow>
          (Inr (case err of
                  Some e \<Rightarrow> \<lparr>MessageId = [], Success = False, Error = e, Status = ''failed'',
                             Timestamp = time_Now_Unix rt\<rparr>
                | None \<Rightarrow> \<lparr>MessageId = m, Success = True, Error = [], Status = ''sent'',
                           Timestamp = time_Now_Unix rt\<rparr>),
           \<lparr>provider_state = st', provider_calls = provider_calls w @ [c0]\<rparr>))"
    by blast
  with run log have "c0 = c"
    by (auto split: prod.splits)
  with eq run out show ?thesis
    by (auto split: prod.splits)
qed

lemma response_valid:
  assumes "EmailService s rt req w = (Inr r, w')"
  shows "passes_validation req"
proof (rule ccontr)
  assume "\<not> passes_validation req"
  then obtain e where "fst (EmailService s rt req w) = Inl e"
    using rejected_iff [of s rt req w] by blast
  with assms show False by simp
qed

lemma valid_one_call:
  assumes "passes_validation req"
  shows "\<exists>c. provider_calls (snd (EmailService s rt req w)) = provider_calls w @ [c]"
proof -
  from valid_run [OF assms, of s rt w] obtain c where
    "EmailService s rt req w =
     (case invoke (resendClient s) c (provider_state w) of
        ((m, err), st') \<Rightarrow>
          (Inr (case err of
                  Some e \<Rightarrow> \<lparr>MessageId = [], Success = False, Error = e, Status = ''failed'',
                             Timestamp = time_Now_Unix rt\<rparr>
                | None \<Rightarrow> \<lparr>MessageId = m, Success = True, Error = [], Status = ''sent'',
                           Timestamp = time_Now_Unix rt\<rparr>),
           \<lparr>provider_state = st', provider_calls = provider_calls w @ [c]\<rparr>))"
    by blast
  then show ?thesis
    by (auto split: prod.splits)
qed

subsection \<open>Validation\<close>

text \<open>
  C2. For each of the six operations, a request whose recipient field is empty is rejected
  with the protocol-level error \<open>InvalidArgument\<close>; no response message is returned, and
  the world is as it was.
\<close>

theorem empty_recipient_rejected:
  "recipient req = [] \<Longrightarrow>
   EmailService s rt req w =
     (Inl (status_Error InvalidArgument ''recipient email is required''), w)"
  by (cases req) (simp_all add: handler_defs)

text \<open>
  C2 at a raw message with an empty recipient.
\<close>

theorem empty_recipient_rejected_witness:
  "recipient (Req_SendEmail (raw_request [] ''x'' ''y'' []) :: int request) = [] \<and>
   EmailService (server_of (succeeding_client ''msg_001'')) runtime0
     (Req_SendEmail (raw_request [] ''x'' ''y'' [])) world0
   = (Inl (status_Error InvalidArgument ''recipient email is required''), world0)"
proof -
  have h: "recipient (Req_SendEmail (raw_request [] ''x'' ''y'' []) :: int request) = []"
    by (simp add: raw_request_def)
  from empty_recipient_rejected [OF h] h show ?thesis by simp
qed

text \<open>
  C5. For every operation, a request that fails validation gets the protocol-level error
  \<open>InvalidArgument\<close>, and the world after the call is the world before it: the list of
  provider calls has not grown and the provider's state is untouched.
\<close>

theorem rejected_before_provider:
  "\<not> passes_validation req \<Longrightarrow>
   (\<exists>msg. fst (EmailService s rt req w) = Inl (status_Error InvalidArgument msg)) \<and>
   snd (EmailService s rt req w) = w"
proof -
  assume "\<not> passes_validation req"
  then obtain e where e: "fst (EmailService s rt req w) = Inl e"
    using rejected_iff [of s rt req w] by blast
  from rejected_InvalidArgument [OF e] rejected_world [OF e] e show ?thesis
    by auto
qed

text \<open>
  C5 at the raw message with an empty recipient, a subject and an HTML body.
\<close>

theorem rejected_before_provider_witness:
  "\<not> passes_validation (Req_SendEmail (raw_request [] ''x'' ''y'' []) :: int request) \<and>
   fst (EmailService (server_of (succeeding_client ''msg_001'')) runtime0
          (Req_SendEmail (raw_request [] ''x'' ''y'' [])) world0)
   = Inl (status_Error InvalidArgument ''recipient email is required'') \<and>
   provider_calls (snd (EmailService (server_of (succeeding_client ''msg_001'')) runtime0
          (Req_SendEmail (raw_request [] ''x'' ''y'' [])) world0)) = []"
proof -
  let ?req = "Req_SendEmail (raw_request [] ''x'' ''y'' []) :: int request"
  let ?run = "EmailService (server_of (succeeding_client ''msg_001'')) runtime0 ?req world0"
  have h: "\<not> passes_validation ?req"
    by (simp add: raw_request_def)
  from rejected_before_provider [OF h] have "snd ?run = world0"
    by blast
  then have "provider_calls (snd ?run) = []"
    by (simp add: world0_def)
  moreover have "fst ?run = Inl (status_Error InvalidArgument ''recipient email is required'')"
    by (simp add: raw_request_def SendEmail_def)
  ultimately show ?thesis
    using h by blast
qed

text \<open>
  C8. A raw message with a non-empty recipient is rejected with \<open>InvalidArgument\<close>
  exactly when its subject is empty or both its HTML body and its text body are empty.
\<close>

theorem raw_message_rejected_iff:
  "em_To req \<noteq> [] \<Longrightarrow>
   (\<exists>msg. fst (SendEmail s rt req w) = Inl (status_Error InvalidArgument msg)) \<longleftrightarrow>
   (em_Subject req = [] \<or> (em_HtmlBody req = [] \<and> em_TextBody req = []))"
  by (auto simp: SendEmail_def call_provider_def split: prod.splits option.splits)

text \<open>
  C8 at a raw message with a recipient and a subject and no body.
\<close>

theorem raw_message_rejected_iff_witness:
  "em_To (raw_request ''a@b.com'' ''x'' [] []) \<noteq> [] \<and>
   em_HtmlBody (raw_request ''a@b.com'' ''x'' [] []) = [] \<and>
   em_TextBody (raw_request ''a@b.com'' ''x'' [] []) = [] \<and>
   (\<exists>msg. fst (SendEmail (server_of (succeeding_client ''msg_001'')) runtime0
                  (raw_request ''a@b.com'' ''x'' [] []) world0)
          = Inl (status_Error InvalidArgument msg))"
proof -
  let ?req = "raw_request ''a@b.com'' ''x'' [] []"
  have h: "em_To ?req \<noteq> []"
    and b: "em_HtmlBody ?req = []" "em_TextBody ?req = []"
    by (simp_all add: raw_request_def)
  from raw_message_rejected_iff [OF h, of "server_of (succeeding_client ''msg_001'')" runtime0 world0] b
  have "\<exists>msg. fst (SendEmail (server_of (succeeding_client ''msg_001'')) runtime0 ?req world0)
          = Inl (status_Error InvalidArgument msg)"
    by blast
  with h b show ?thesis
    by blast
qed

text \<open>
  C9. A verification request, and a password reset request, with a non-empty recipient
  and an empty token is rejected with \<open>InvalidArgument\<close>.
\<close>

theorem empty_token_rejected:
  "(ver_To vreq \<noteq> [] \<and> ver_VerificationToken vreq = [] \<longrightarrow>
      SendVerificationEmail s rt vreq w =
        (Inl (status_Error InvalidArgument ''verification token is required''), w)) \<and>
   (rst_To preq \<noteq> [] \<and> rst_ResetToken preq = [] \<longrightarrow>
      SendPasswordResetEmail s rt preq w =
        (Inl (status_Error InvalidArgument ''reset token is required''), w))"
  by (simp add: SendVerificationEmail_def SendPasswordResetEmail_def)

text \<open>
  C9 at the example requests with their tokens emptied.
\<close>

theorem empty_token_rejected_witness:
  "ver_To (verification_request \<lparr>ver_VerificationToken := []\<rparr>) \<noteq> [] \<and>
   ver_VerificationToken (verification_request \<lparr>ver_VerificationToken := []\<rparr>) = [] \<and>
   SendVerificationEmail (server_of (succeeding_client ''msg_001'')) runtime0
     (verification_request \<lparr>ver_VerificationToken := []\<rparr>) world0
   = (Inl (status_Error InvalidArgument ''verification token is required''), world0) \<and>
   rst_To (reset_request \<lparr>rst_ResetToken := []\<rparr>) \<noteq> [] \<and>
   rst_ResetToken (reset_request \<lparr>rst_ResetToken := []\<rparr>) = [] \<and>
   SendPasswordResetEmail (server_of (succeeding_client ''msg_001'')) runtime0
     (reset_request \<lparr>rst_ResetToken := []\<rparr>) world0
   = (Inl (status_Error InvalidArgument ''reset token is required''), world0)"
proof -
  let ?v = "verification_request \<lparr>ver_VerificationToken := []\<rparr>"
  let ?p = "reset_request \<lparr>rst_ResetToken := []\<rparr>"
  have hv: "ver_To ?v \<noteq> [] \<and> ver_VerificationToken ?v = []"
    by (simp add: verification_request_def)
  have hp: "rst_To ?p \<noteq> [] \<and> rst_ResetToken ?p = []"
    by (simp add: reset_request_def)
  from empty_token_rejected
         [of ?v "server_of (succeeding_client ''msg_001'')" runtime0 world0 ?p] hv hp
  show ?thesis
    by blast
qed

text \<open>
  C6, as the code has it. \<^verbatim>\<open>SendTransactionNotification\<close> checks the recipient only.
  With an empty recipient the request is rejected with \<open>InvalidArgument\<close> before any
  provider call; with a non-empty recipient it is never rejected, whatever its transaction
  identifier: the provider is called once, with the template
  \<open>transaction-notification\<close> and the request's transaction identifier, empty or not,
  under \<open>transaction_id\<close>.
\<close>

theorem transaction_requires_recipient_only:
  "(txn_To req = [] \<longrightarrow>
      SendTransactionNotification s rt req w =
        (Inl (status_Error InvalidArgument ''recipient email is required''), w)) \<and>
   (txn_To req \<noteq> [] \<longrightarrow>
      (\<exists>r. fst (SendTransactionNotification s rt req w) = Inr r) \<and>
      (\<exists>c. provider_calls (snd (SendTransactionNotification s rt req w)) = provider_calls w @ [c] \<and>
           call_template c = Some ''transaction-notification'' \<and>
           call_variables c ''transaction_id'' = Some (txn_TransactionId req)))"
  by (simp add: SendTransactionNotification_def Let_def call_provider_def
        split: prod.splits option.splits)

text \<open>
  C6 as amended, at a request with no recipient and at one with no transaction identifier.
\<close>

theorem transaction_requires_recipient_only_witness:
  "txn_To (transaction_request [] \<lparr>txn_To := []\<rparr>) = [] \<and>
   fst (SendTransactionNotification (server_of (succeeding_client ''msg_001'')) runtime0
          (transaction_request [] \<lparr>txn_To := []\<rparr>) world0)
   = Inl (status_Error InvalidArgument ''recipient email is required'') \<and>
   txn_To (transaction_request []) \<noteq> [] \<and>
   call_variables (last (provider_calls (snd (SendTransactionNotification
          (server_of (succeeding_client ''msg_001'')) runtime0 (transaction_request []) world0))))
     ''transaction_id'' = Some []"
proof -
  let ?s = "server_of (succeeding_client ''msg_001'')"
  let ?bad = "transaction_request [] \<lparr>txn_To := []\<rparr>"
  let ?req = "transaction_request []"
  have h1: "txn_To ?bad = []"
    by simp
  have h2: "txn_To ?req \<noteq> []"
    by (simp add: transaction_request_def)
  have id: "txn_TransactionId ?req = []"
    by (simp add: transaction_request_def)
  from transaction_requires_recipient_only [of ?bad ?s runtime0 world0] h1
  have a: "fst (SendTransactionNotification ?s runtime0 ?bad world0)
           = Inl (status_Error InvalidArgument ''recipient email is required'')"
    by simp
  from transaction_requires_recipient_only [of ?req ?s runtime0 world0] h2 id
  obtain c where
    "provider_calls (snd (SendTransactionNotification ?s runtime0 ?req world0))
       = provider_calls world0 @ [c]"
    and "call_variables c ''transaction_id'' = Some []"
    by auto
  then have b: "call_variables (last (provider_calls (snd (SendTransactionNotification
          ?s runtime0 ?req world0)))) ''transaction_id'' = Some []"
    by simp
  from h1 a h2 b show ?thesis
    by blast
qed

text \<open>
  C6 as stated fails: a transaction notification with a recipient and an empty transaction
  identifier is not rejected; the provider is called and the result reports success.
\<close>

theorem transaction_id_not_required_counterexample:
  "txn_To (transaction_request []) \<noteq> [] \<and>
   txn_TransactionId (transaction_request []) = [] \<and>
   fst (SendTransactionNotification (server_of (succeeding_client ''msg_001'')) runtime0
          (transaction_request []) world0)
   = Inr \<lparr>MessageId = ''msg_001'', Success = True, Error = [], Status = ''sent'',
          Timestamp = 1700000000\<rparr> \<and>
   length (provider_calls (snd (SendTransactionNotification
          (server_of (succeeding_client ''msg_001'')) runtime0 (transaction_request []) world0))) = 1"
  by (simp add: transaction_request_def SendTransactionNotification_def Let_def stub_defs)

subsection \<open>Shaping the provider's outcome\<close>

text \<open>
  C1, as the code has it. For every operation and every request that passes validation,
  when the provider returns an error with text \<open>e\<close> the call returns a response, not a
  protocol-level error, with \<open>Success = False\<close>, \<open>Error = e\<close> (so non-empty whenever
  \<open>e\<close> is), an empty \<open>MessageId\<close> and \<open>Status = ''failed''\<close>, in lower case.
\<close>

theorem provider_error_shaped:
  assumes "passes_validation req"
    and "EmailService s rt req w = (res, w')"
    and "provider_calls w' = provider_calls w @ [c]"
    and "fst (invoke (resendClient s) c (provider_state w)) = (m, Some e)"
  shows "res = Inr \<lparr>MessageId = [], Success = False, Error = e, Status = ''failed'',
                    Timestamp = time_Now_Unix rt\<rparr>"
  using valid_run_outcome [OF assms] by simp

text \<open>
  C1 as amended, at a template request with a provider that fails with
  \<open>quota exceeded\<close>.
\<close>

theorem provider_error_shaped_witness:
  "passes_validation template_request \<and>
   fst (EmailService (server_of (failing_client ''quota exceeded'')) runtime0 template_request world0)
   = Inr \<lparr>MessageId = [], Success = False, Error = ''quota exceeded'', Status = ''failed'',
          Timestamp = 1700000000\<rparr>"
proof -
  let ?s = "server_of (failing_client ''quota exceeded'')"
  let ?c = "Call_SendWithTemplate ''a@b.com'' ''welcome-email'' Map.empty"
  let ?run = "EmailService ?s runtime0 template_request world0"
  have v: "passes_validation template_request"
    by (simp add: template_request_def)
  have run: "?run = (fst ?run, snd ?run)"
    by simp
  have log: "provider_calls (snd ?run) = provider_calls world0 @ [?c]"
    by (simp add: template_request_def SendTemplateEmail_def stub_defs)
  have out: "fst (invoke (resendClient ?s) ?c (provider_state world0)) = ([], Some ''quota exceeded'')"
    by (simp add: stub_defs)
  from provider_error_shaped [OF v run log out] v show ?thesis
    by (simp add: runtime0_def)
qed

text \<open>
  C1 as stated fails: at that input the status of the response is \<open>failed\<close>, not
  \<open>Failed\<close>; and with a provider whose error has an empty text, the error message of
  the response is empty.
\<close>

theorem provider_error_status_counterexample:
  "passes_validation template_request \<and>
   fst (EmailService (server_of (failing_client ''quota exceeded'')) runtime0 template_request world0)
   = Inr \<lparr>MessageId = [], Success = False, Error = ''quota exceeded'', Status = ''failed'',
          Timestamp = 1700000000\<rparr> \<and>
   fst (EmailService (server_of (failing_client ''quota exceeded'')) runtime0 template_request world0)
   \<noteq> Inr \<lparr>MessageId = [], Success = False, Error = ''quota exceeded'', Status = ''Failed'',
          Timestamp = 1700000000\<rparr> \<and>
   fst (EmailService (server_of (failing_client [])) runtime0 template_request world0)
   = Inr \<lparr>MessageId = [], Success = False, Error = [], Status = ''failed'',
          Timestamp = 1700000000\<rparr>"
  by (simp add: template_request_def SendTemplateEmail_def stub_defs)

text \<open>
  C3, as the code has it. For every operation and every request that passes validation,
  when the provider succeeds with identifier \<open>m\<close> the response has \<open>Success = True\<close>,
  \<open>MessageId = m\<close> (so non-empty whenever \<open>m\<close> is), an empty \<open>Error\<close> and
  \<open>Status = ''sent''\<close>, in lower case.
\<close>

theorem provider_success_shaped:
  assumes "passes_validation req"
    and "EmailService s rt req w = (res, w')"
    and "provider_calls w' = provider_calls w @ [c]"
    and "fst (invoke (resendClient s) c (provider_state w)) = (m, None)"
  shows "res = Inr \<lparr>MessageId = m, Success = True, Error = [], Status = ''sent'',
                    Timestamp = time_Now_Unix rt\<rparr>"
  using valid_run_outcome [OF assms] by simp

text \<open>
  C3 as amended, at a template request with a provider that returns \<open>msg_001\<close>.
\<close>

theorem provider_success_shaped_witness:
  "passes_validation template_request \<and>
   fst (EmailService (server_of (succeeding_client ''msg_001'')) runtime0 template_request world0)
   = Inr \<lparr>MessageId = ''msg_001'', Success = True, Error = [], Status = ''sent'',
          Timestamp = 1700000000\<rparr>"
proof -
  let ?s = "server_of (succeeding_client ''msg_001'')"
  let ?c = "Call_SendWithTemplate ''a@b.com'' ''welcome-email'' Map.empty"
  let ?run = "EmailService ?s runtime0 template_request world0"
  have v: "passes_validation template_request"
    by (simp add: template_request_def)
  have run: "?run = (fst ?run, snd ?run)"
    by simp
  have log: "provider_calls (snd ?run) = provider_calls world0 @ [?c]"
    by (simp add: template_request_def SendTemplateEmail_def stub_defs)
  have out: "fst (invoke (resendClient ?s) ?c (provider_state world0)) = (''msg_001'', None)"
    by (simp add: stub_defs)
  from provider_success_shaped [OF v run log out] v show ?thesis
    by (simp add: runtime0_def)
qed

text \<open>
  C3 as stated fails: for the verification request of the specification's scenario A and
  a provider returning \<open>msg_001\<close>, the status of the response is \<open>sent\<close>, not
  \<open>Sent\<close>; and with a provider returning an empty identifier and a nil error, the
  message identifier of the response is empty.
\<close>

theorem provider_success_status_counterexample:
  "passes_validation (Req_SendVerificationEmail verification_request :: int request) \<and>
   fst (EmailService (server_of (succeeding_client ''msg_001'')) runtime0
          (Req_SendVerificationEmail verification_request) world0)
   = Inr \<lparr>MessageId = ''msg_001'', Success = True, Error = [], Status = ''sent'',
          Timestamp = 1700000000\<rparr> \<and>
   fst (EmailService (server_of (succeeding_client ''msg_001'')) runtime0
          (Req_SendVerificationEmail verification_request) world0)
   \<noteq> Inr \<lparr>MessageId = ''msg_001'', Success = True, Error = [], Status = ''Sent'',
          Timestamp = 1700000000\<rparr> \<and>
   fst (EmailService (server_of (succeeding_client [])) runtime0
          (Req_SendVerificationEmail verification_request) world0)
   = Inr \<lparr>MessageId = [], Success = True, Error = [], Status = ''sent'',
          Timestamp = 1700000000\<rparr>"
  by (simp add: verification_request_def SendVerificationEmail_def Let_def stub_defs)

text \<open>
  C4, as the code has it. Every response of every operation satisfies: success implies an
  empty error message and a message identifier equal to the provider's; failure implies an
  empty identifier and an error message equal to the provider's error text; the two fields
  are never both populated. When the provider's identifier is non-empty on success and its
  error text is non-empty on failure, the invariant of the specification holds in full.
\<close>

theorem result_invariant:
  assumes "EmailService s rt req w = (Inr r, w')"
    and "provider_calls w' = provider_calls w @ [c]"
    and "fst (invoke (resendClient s) c (provider_state w)) = (m, err)"
  shows "(Success r \<longrightarrow> Error r = [] \<and> MessageId r = m \<and> err = None) \<and>
         (\<not> Success r \<longrightarrow> MessageId r = [] \<and> err = Some (Error r)) \<and>
         \<not> (MessageId r \<noteq> [] \<and> Error r \<noteq> []) \<and>
         ((err = None \<longrightarrow> m \<noteq> []) \<and> err \<noteq> Some [] \<longrightarrow> spec_result_invariant r)"
  using valid_run_outcome [OF response_valid [OF assms(1)] assms]
  by (cases err) (auto simp: spec_result_invariant_def)

text \<open>
  C4 as amended, at a welcome request with a provider that returns \<open>msg_001\<close>.
\<close>

theorem result_invariant_witness:
  "fst (EmailService (server_of (succeeding_client ''msg_001'')) runtime0
          (Req_SendWelcomeEmail welcome_request) world0)
   = Inr \<lparr>MessageId = ''msg_001'', Success = True, Error = [], Status = ''sent'',
          Timestamp = 1700000000\<rparr> \<and>
   length (provider_calls (snd (EmailService (server_of (succeeding_client ''msg_001'')) runtime0
          (Req_SendWelcomeEmail welcome_request) world0))) = 1 \<and>
   spec_result_invariant \<lparr>MessageId = ''msg_001'', Success = True, Error = [], Status = ''sent'',
          Timestamp = 1700000000\<rparr>"
proof -
  let ?s = "server_of (succeeding_client ''msg_001'')"
  let ?run = "EmailService ?s runtime0 (Req_SendWelcomeEmail welcome_request) world0"
  let ?r = "\<lparr>MessageId = ''msg_001'', Success = True, Error = [], Status = ''sent'',
             Timestamp = 1700000000\<rparr>"
  let ?c = "hd (provider_calls (snd ?run))"
  have run: "?run = (Inr ?r, snd ?run)"
    by (simp add: welcome_request_def SendWelcomeEmail_def Let_def stub_defs)
  have log: "provider_calls (snd ?run) = provider_calls world0 @ [?c]"
    by (simp add: welcome_request_def SendWelcomeEmail_def Let_def stub_defs)
  have out: "fst (invoke (resendClient ?s) ?c (provider_state world0)) = (''msg_001'', None)"
    by (simp add: welcome_request_def SendWelcomeEmail_def Let_def stub_defs)
  have ok: "(None = None \<longrightarrow> ''msg_001'' \<noteq> []) \<and> None \<noteq> Some ([] :: string)"
    by simp
  have len: "length (provider_calls (snd ?run)) = 1"
    by (simp add: welcome_request_def SendWelcomeEmail_def Let_def stub_defs)
  from result_invariant [OF run log out] ok have inv: "spec_result_invariant ?r"
    by blast
  have "fst ?run = Inr ?r"
    by (simp add: welcome_request_def SendWelcomeEmail_def Let_def stub_defs)
  with inv len show ?thesis
    by blast
qed

text \<open>
  C4 as stated fails: a provider may return an empty identifier and a nil error; the
  response then reports success with both fields empty.
\<close>

theorem result_invariant_counterexample:
  "fst (EmailService (server_of (succeeding_client [])) runtime0
          (Req_SendVerificationEmail verification_request) world0)
   = Inr \<lparr>MessageId = [], Success = True, Error = [], Status = ''sent'',
          Timestamp = 1700000000\<rparr> \<and>
   \<not> spec_result_invariant \<lparr>MessageId = [], Success = True, Error = [], Status = ''sent'',
          Timestamp = 1700000000\<rparr>"
  by (simp add: verification_request_def SendVerificationEmail_def Let_def stub_defs
        spec_result_invariant_def)

subsection \<open>Templates and variables\<close>

text \<open>
  C7. For a verification request that passes validation and has an empty verification
  URL, the variable map passed to the provider has under \<open>verification_url\<close> the string
  \<open>https://app.cloud9.money/verify?token=\<close> followed by the request's token.
\<close>

theorem default_verification_url:
  assumes "ver_To req \<noteq> []"
    and "ver_VerificationToken req \<noteq> []"
    and "ver_VerificationUrl req = []"
  shows "\<exists>c. provider_calls (snd (SendVerificationEmail s rt req w)) = provider_calls w @ [c] \<and>
             call_variables c ''verification_url'' =
               Some (''https://app.cloud9.money/verify?token='' @ ver_VerificationToken req)"
  using assms
  by (simp add: SendVerificationEmail_def Let_def call_provider_def
        split: prod.splits option.splits)

text \<open>
  C7 at the verification request of the specification's scenario A.
\<close>

theorem default_verification_url_witness:
  "ver_To verification_request \<noteq> [] \<and>
   ver_VerificationToken verification_request \<noteq> [] \<and>
   ver_VerificationUrl verification_request = [] \<and>
   call_variables (last (provider_calls (snd (SendVerificationEmail
          (server_of (succeeding_client ''msg_001'')) runtime0 verification_request world0))))
     ''verification_url'' = Some ''https://app.cloud9.money/verify?token=abc123''"
proof -
  let ?s = "server_of (succeeding_client ''msg_001'')"
  have h1: "ver_To verification_request \<noteq> []"
    and h2: "ver_VerificationToken verification_request \<noteq> []"
    and h3: "ver_VerificationUrl verification_request = []"
    and tok: "ver_VerificationToken verification_request = ''abc123''"
    by (simp_all add: verification_request_def)
  from default_verification_url [OF h1 h2 h3, of ?s runtime0 world0] obtain c where
    "provider_calls (snd (SendVerificationEmail ?s runtime0 verification_request world0))
       = provider_calls world0 @ [c]"
    and "call_variables c ''verification_url'' =
           Some (''https://app.cloud9.money/verify?token='' @ ver_VerificationToken verification_request)"
    by blast
  then have "call_variables (last (provider_calls (snd (SendVerificationEmail
          ?s runtime0 verification_request world0)))) ''verification_url''
       = Some ''https://app.cloud9.money/verify?token=abc123''"
    by (simp add: tok)
  with h1 h2 h3 show ?thesis
    by blast
qed

text \<open>
  C10. A valid verification request calls the provider's template method with the
  template \<open>verification-email\<close> and a variable map holding \<open>app_name = Cloud9\<close> and
  \<open>support_email = support@cloud9.money\<close>, whatever the request's fields; a valid
  password reset uses the template \<open>password-reset\<close>, a welcome \<open>welcome-email\<close> and
  a transaction notification \<open>transaction-notification\<close>.
\<close>

theorem fixed_templates:
  "(ver_To vreq \<noteq> [] \<and> ver_VerificationToken vreq \<noteq> [] \<longrightarrow>
      (\<exists>c. provider_calls (snd (SendVerificationEmail s rt vreq w)) = provider_calls w @ [c] \<and>
           call_template c = Some ''verification-email'' \<and>
           call_variables c ''app_name'' = Some ''Cloud9'' \<and>
           call_variables c ''support_email'' = Some ''support@cloud9.money'')) \<and>
   (rst_To preq \<noteq> [] \<and> rst_ResetToken preq \<noteq> [] \<longrightarrow>
      (\<exists>c. provider_calls (snd (SendPasswordResetEmail s rt preq w)) = provider_calls w @ [c] \<and>
           call_template c = Some ''password-reset'')) \<and>
   (wel_To wreq \<noteq> [] \<longrightarrow>
      (\<exists>c. provider_calls (snd (SendWelcomeEmail s rt wreq w)) = provider_calls w @ [c] \<and>
           call_template c = Some ''welcome-email'')) \<and>
   (txn_To treq \<noteq> [] \<longrightarrow>
      (\<exists>c. provider_calls (snd (SendTransactionNotification s rt treq w)) = provider_calls w @ [c] \<and>
           call_template c = Some ''transaction-notification''))"
proof (intro conjI)
  show "ver_To vreq \<noteq> [] \<and> ver_VerificationToken vreq \<noteq> [] \<longrightarrow>
      (\<exists>c. provider_calls (snd (SendVerificationEmail s rt vreq w)) = provider_calls w @ [c] \<and>
           call_template c = Some ''verification-email'' \<and>
           call_variables c ''app_name'' = Some ''Cloud9'' \<and>
           call_variables c ''support_email'' = Some ''support@cloud9.money'')"
    by (simp add: SendVerificationEmail_def Let_def call_provider_def
          split: prod.splits option.splits)
  show "rst_To preq \<noteq> [] \<and> rst_ResetToken preq \<noteq> [] \<longrightarrow>
      (\<exists>c. provider_calls (snd (SendPasswordResetEmail s rt preq w)) = provider_calls w @ [c] \<and>
           call_template c = Some ''password-reset'')"
    by (simp add: SendPasswordResetEmail_def Let_def call_provider_def
          split: prod.splits option.splits)
  show "wel_To wreq \<noteq> [] \<longrightarrow>
      (\<exists>c. provider_calls (snd (SendWelcomeEmail s rt wreq w)) = provider_calls w @ [c] \<and>
           call_template c = Some ''welcome-email'')"
    by (simp add: SendWelcomeEmail_def Let_def call_provider_def
          split: prod.splits option.splits)
  show "txn_To treq \<noteq> [] \<longrightarrow>
      (\<exists>c. provider_calls (snd (SendTransactionNotification s rt treq w)) = provider_calls w @ [c] \<and>
           call_template c = Some ''transaction-notification'')"
    by (simp add: SendTransactionNotification_def Let_def call_provider_def
          split: prod.splits option.splits)
qed

text \<open>
  C10 at the four example requests.
\<close>

theorem fixed_templates_witness:
  "(ver_To verification_request \<noteq> [] \<and> ver_VerificationToken verification_request \<noteq> []) \<and>
   call_template (last (provider_calls (snd (SendVerificationEmail
     (server_of (succeeding_client ''msg_001'')) runtime0 verification_request world0))))
     = Some ''verification-email'' \<and>
   call_variables (last (provider_calls (snd (SendVerificationEmail
     (server_of (succeeding_client ''msg_001'')) runtime0 verification_request world0))))
     ''app_name'' = Some ''Cloud9'' \<and>
   call_variables (last (provider_calls (snd (SendVerificationEmail
     (server_of (succeeding_client ''msg_001'')) runtime0 verification_request world0))))
     ''support_email'' = Some ''support@cloud9.money'' \<and>
   (rst_To reset_request \<noteq> [] \<and> rst_ResetToken reset_request \<noteq> []) \<and>
   call_template (last (provider_calls (snd (SendPasswordResetEmail
     (server_of (succeeding_client ''msg_001'')) runtime0 reset_request world0))))
     = Some ''password-reset'' \<and>
   wel_To welcome_request \<noteq> [] \<and>
   call_template (last (provider_calls (snd (SendWelcomeEmail
     (server_of (succeeding_client ''msg_001'')) runtime0 welcome_request world0))))
     = Some ''welcome-email'' \<and>
   txn_To (transaction_request ''txn_1'') \<noteq> [] \<and>
   call_template (last (provider_calls (snd (SendTransactionNotification
     (server_of (succeeding_client ''msg_001'')) runtime0 (transaction_request ''txn_1'') world0))))
     = Some ''transaction-notification''"
proof -
  let ?s = "server_of (succeeding_client ''msg_001'')"
  let ?t = "transaction_request ''txn_1''"
  have hv: "ver_To verification_request \<noteq> [] \<and> ver_VerificationToken verification_request \<noteq> []"
    by (simp add: verification_request_def)
  have hp: "rst_To reset_request \<noteq> [] \<and> rst_ResetToken reset_request \<noteq> []"
    by (simp add: reset_request_def)
  have hw: "wel_To welcome_request \<noteq> []"
    by (simp add: welcome_request_def)
  have ht: "txn_To ?t \<noteq> []"
    by (simp add: transaction_request_def)
  note all = fixed_templates [of verification_request ?s runtime0 world0 reset_request
                                welcome_request ?t]
  from all hv obtain c1 where
    "provider_calls (snd (SendVerificationEmail ?s runtime0 verification_request world0))
       = provider_calls world0 @ [c1]"
    and "call_template c1 = Some ''verification-email''"
    and "call_variables c1 ''app_name'' = Some ''Cloud9''"
    and "call_variables c1 ''support_email'' = Some ''support@cloud9.money''"
    by blast
  then have v: "call_template (last (provider_calls (snd (SendVerificationEmail
        ?s runtime0 verification_request world0)))) = Some ''verification-email'' \<and>
      call_variables (last (provider_calls (snd (SendVerificationEmail
        ?s runtime0 verification_request world0)))) ''app_name'' = Some ''Cloud9'' \<and>
      call_variables (last (provider_calls (snd (SendVerificationEmail
        ?s runtime0 verification_request world0)))) ''support_email''
        = Some ''support@cloud9.money''"
    by simp
  from all hp obtain c2 where
    "provider_calls (snd (SendPasswordResetEmail ?s runtime0 reset_request world0))
       = provider_calls world0 @ [c2]"
    and "call_template c2 = Some ''password-reset''"
    by blast
  then have p: "call_template (last (provider_calls (snd (SendPasswordResetEmail
        ?s runtime0 reset_request world0)))) = Some ''password-reset''"
    by simp
  from all hw obtain c3 where
    "provider_calls (snd (SendWelcomeEmail ?s runtime0 welcome_request world0))
       = provider_calls world0 @ [c3]"
    and "call_template c3 = Some ''welcome-email''"
    by blast
  then have w: "call_template (last (provider_calls (snd (SendWelcomeEmail
        ?s runtime0 welcome_request world0)))) = Some ''welcome-email''"
    by simp
  from all ht obtain c4 where
    "provider_calls (snd (SendTransactionNotification ?s runtime0 ?t world0))
       = provider_calls world0 @ [c4]"
    and "call_template c4 = Some ''transaction-notification''"
    by blast
  then have t: "call_template (last (provider_calls (snd (SendTransactionNotification
        ?s runtime0 ?t world0)))) = Some ''transaction-notification''"
    by simp
  from hv v hp p hw w ht t show ?thesis
    by blast
qed

end
